theory Spec2Isabelle
  imports Main
begin

section \<open>The tiered cache of the feedback dashboard\<close>

text \<open>
  A shallow embedding of \<^verbatim>\<open>src/middleware/cache.js\<close> (the class
  \<^verbatim>\<open>CacheService\<close> and the module start-up in front of it) and of the
  \<^verbatim>\<open>cacheMiddleware\<close> of \<^verbatim>\<open>src/PERFORMANCE_OPTIMIZATION.md\<close>.
  The module state (the in-memory cache, the variable \<^verbatim>\<open>redisClient\<close>) is passed
  explicitly; a rejected promise or a thrown exception is the \<open>Inl\<close> branch of the result,
  and the state is returned in both branches, because the JavaScript keeps the writes it made
  before it threw.
\<close>

subsection \<open>Values\<close>

text \<open>
  The payloads handed to the cache are JSON-serialisable JavaScript values. Numbers are
  restricted to integers. \<open>truthy\<close> is the ToBoolean conversion that every
  \<^verbatim>\<open>if (x)\<close> of the source applies.
\<close>

type_synonym key = string

datatype jsval =
    JNull
  | JBool bool
  | JNum int
  | JStr string
  | JArr "jsval list"
  | JObj "(string \<times> jsval) list"

fun truthy :: "jsval \<Rightarrow> bool" where
  "truthy JNull = False"
| "truthy (JBool b) = b"
| "truthy (JNum n) = (n \<noteq> 0)"
| "truthy (JStr s) = (s \<noteq> [])"
| "truthy (JArr xs) = True"
| "truthy (JObj fs) = True"

text \<open>
  \<^verbatim>\<open>JSON.stringify\<close> and \<^verbatim>\<open>JSON.parse\<close> are built-ins of the language;
  the model takes them as a parameter. \<open>parse\<close> returns \<open>None\<close> where
  \<^verbatim>\<open>JSON.parse\<close> throws a SyntaxError.
\<close>

record codec =
  stringify :: "jsval \<Rightarrow> string"
  parse :: "string \<Rightarrow> jsval option"

text \<open>
  A codec for the three JSON literals, used where the model is evaluated at a concrete input.
  Outside \<open>null\<close>, \<open>true\<close> and \<open>false\<close> it is not meant to agree with JSON.
\<close>

definition literal_stringify :: "jsval \<Rightarrow> string" where
  "literal_stringify v =
     (case v of JBool b \<Rightarrow> (if b then ''true'' else ''false'') | _ \<Rightarrow> ''null'')"

definition literal_parse :: "string \<Rightarrow> jsval option" where
  "literal_parse s =
     (if s = ''null'' then Some JNull
      else if s = ''true'' then Some (JBool True)
      else if s = ''false'' then Some (JBool False)
      else None)"

definition literal_codec :: codec where
  "literal_codec = \<lparr>stringify = literal_stringify, parse = literal_parse\<rparr>"

datatype error =
    RemoteFailure
  | SyntaxError
  | TypeError
  | HandlerError string

subsection \<open>Local store\<close>

text \<open>
  Modelled from the spec: the Local Store of section 4.1, which the source obtains from the
  package \<^verbatim>\<open>node-cache\<close> (\<^verbatim>\<open>new NodeCache({stdTTL: 300, checkperiod: 60})\<close>);
  the package is not under \<^verbatim>\<open>src/\<close>. An entry records its value, the time it was
  stored and its TTL in seconds; \<open>get\<close> treats an entry whose \<open>storedAt + ttlSeconds\<close> has
  passed as absent, whether or not the sweep has run; \<open>set\<close> inserts or replaces;
  \<open>del\<close> of a missing key changes nothing. Times are in seconds.
\<close>

record entry =
  val :: jsval
  storedAt :: int
  ttlSeconds :: int

type_synonym local_store = "key \<rightharpoonup> entry"

definition expired :: "int \<Rightarrow> entry \<Rightarrow> bool" where
  "expired now e = (storedAt e + ttlSeconds e < now)"

definition ls_get :: "int \<Rightarrow> local_store \<Rightarrow> key \<Rightarrow> jsval option" where
  "ls_get now m k =
     (case m k of
        None \<Rightarrow> None
      | Some e \<Rightarrow> if expired now e then None else Some (val e))"

definition ls_set :: "int \<Rightarrow> local_store \<Rightarrow> key \<Rightarrow> jsval \<Rightarrow> int \<Rightarrow> local_store" where
  "ls_set now m k v ttl = m(k \<mapsto> \<lparr>val = v, storedAt = now, ttlSeconds = ttl\<rparr>)"

definition ls_del :: "local_store \<Rightarrow> key \<Rightarrow> local_store" where
  "ls_del m k = m(k := None)"

subsection \<open>Remote store\<close>

text \<open>
  Modelled from the spec: the shared key-value service of section 4.2, reached through the
  package \<^verbatim>\<open>redis\<close>, which is not under \<^verbatim>\<open>src/\<close>. The service keeps a string
  payload and an expiry time per key. Whether a command sent to it fails (connectivity or
  protocol failure) is the environment's choice, \<open>fails\<close>; a failed command leaves the
  service's data as it was.

  The client is the one that \<^verbatim>\<open>package.json\<close> pins (\<^verbatim>\<open>"redis": "^4.6.7"\<close>) and
  that \<^verbatim>\<open>cache.js\<close> creates with \<^verbatim>\<open>createClient({url})\<close> and
  \<^verbatim>\<open>connect()\<close>, the interface of version 4. It has the methods \<^verbatim>\<open>get\<close> and
  \<^verbatim>\<open>del\<close>, which send \<open>GET\<close> and \<open>DEL\<close>; its method for a write with expiry is
  \<^verbatim>\<open>setEx\<close>, and it has no method \<^verbatim>\<open>setex\<close>. So the commands that the module
  sends are \<open>GET\<close> and \<open>DEL\<close>; \<open>remote_store\<close> is the effect of a write with expiry that
  some client of the service made.
\<close>

datatype command =
    GET key
  | DEL key

record rentry =
  payload :: string
  expireAt :: int

record remote =
  rdata :: "key \<rightharpoonup> rentry"
  fails :: "command \<Rightarrow> bool"

definition remote_lookup :: "int \<Rightarrow> remote \<Rightarrow> key \<Rightarrow> string option" where
  "remote_lookup now r k =
     (case rdata r k of
        None \<Rightarrow> None
      | Some e \<Rightarrow> if expireAt e \<le> now then None else Some (payload e))"

definition remote_store :: "int \<Rightarrow> remote \<Rightarrow> key \<Rightarrow> int \<Rightarrow> string \<Rightarrow> remote" where
  "remote_store now r k ttl s = r\<lparr>rdata := (rdata r)(k \<mapsto> \<lparr>payload = s, expireAt = now + ttl\<rparr>)\<rparr>"

definition remote_remove :: "remote \<Rightarrow> key \<Rightarrow> remote" where
  "remote_remove r k = r\<lparr>rdata := (rdata r)(k := None)\<rparr>"

subsection \<open>Module state and start-up\<close>

text \<open>
  \<open>memoryCache\<close> and \<open>redisClient\<close> are the two module variables of
  \<^verbatim>\<open>cache.js\<close>; \<open>redisClient = None\<close> is the JavaScript \<^verbatim>\<open>null\<close>.
  \<open>clock\<close> is the current time and \<open>issued\<close> the commands sent over the network so far.
\<close>

record state =
  clock :: int
  memoryCache :: local_store
  redisClient :: "remote option"
  issued :: "command list"

text \<open>
  Lines 5 to 22 of \<^verbatim>\<open>cache.js\<close>. \<open>REDIS_URL\<close> is the environment variable
  (\<open>None\<close> when unset; the empty string is falsy as well) and \<open>conn\<close> the outcome of
  \<^verbatim>\<open>redisClient.connect()\<close>: on rejection the handler resets the variable to
  \<^verbatim>\<open>null\<close>. The state is the one the module is in once that promise has settled.
\<close>

definition startup :: "int \<Rightarrow> string option \<Rightarrow> error + remote \<Rightarrow> state" where
  "startup now REDIS_URL conn =
     \<lparr>clock = now,
      memoryCache = Map.empty,
      redisClient =
        (case REDIS_URL of
           None \<Rightarrow> None
         | Some url \<Rightarrow>
             if url = [] then None
             else (case conn of Inl err \<Rightarrow> None | Inr r \<Rightarrow> Some r)),
      issued = []\<rparr>"

subsection \<open>CacheService\<close>

text \<open>
  Lines 30 to 40 of \<^verbatim>\<open>static async get(key)\<close>: what happens once the memory
  cache has given nothing truthy.
\<close>

definition get_from_redis :: "codec \<Rightarrow> key \<Rightarrow> state \<Rightarrow> (error + jsval) \<times> state" where
  "get_from_redis J k s =
     (case redisClient s of
        None \<Rightarrow> (Inr JNull, s)
      | Some r \<Rightarrow>
          (let s1 = s\<lparr>issued := issued s @ [GET k]\<rparr> in
           if fails r (GET k) then (Inl RemoteFailure, s1)
           else
             (case remote_lookup (clock s) r k of
                None \<Rightarrow> (Inr JNull, s1)
              | Some redisResult \<Rightarrow>
                  if redisResult = [] then (Inr JNull, s1)
                  else
                    (case parse J redisResult of
                       None \<Rightarrow> (Inl SyntaxError, s1)
                     | Some parsed \<Rightarrow>
                         (Inr parsed,
                          s1\<lparr>memoryCache :=
                                ls_set (clock s) (memoryCache s) k parsed 60\<rparr>)))))"

text \<open>\<^verbatim>\<open>static async get(key)\<close>, lines 25 to 41.\<close>

definition cache_get :: "codec \<Rightarrow> key \<Rightarrow> state \<Rightarrow> (error + jsval) \<times> state" where
  "cache_get J k s =
     (case ls_get (clock s) (memoryCache s) k of
        None \<Rightarrow> get_from_redis J k s
      | Some memoryResult \<Rightarrow>
          if truthy memoryResult then (Inr memoryResult, s) else get_from_redis J k s)"

text \<open>
  The default parameter \<^verbatim>\<open>= 300\<close> of \<^verbatim>\<open>set\<close> and of
  \<^verbatim>\<open>cacheMiddleware\<close>; \<open>None\<close> is the omitted argument.
\<close>

fun or_300 :: "int option \<Rightarrow> int" where
  "or_300 None = 300"
| "or_300 (Some n) = n"

text \<open>
  \<^verbatim>\<open>static async set(key, value, ttl = 300)\<close>, lines 43 to 51. Line 45 writes the
  memory cache. With a client held, line 49 calls \<^verbatim>\<open>redisClient.setex\<close>, which the
  client does not have: once the arguments are evaluated the call throws a TypeError, nothing
  is sent and the promise of \<^verbatim>\<open>set\<close> is rejected.
\<close>

definition cache_set ::
  "codec \<Rightarrow> key \<Rightarrow> jsval \<Rightarrow> int option \<Rightarrow> state \<Rightarrow> (error + unit) \<times> state" where
  "cache_set J k v ttl s =
     (let t = or_300 ttl;
          s1 = s\<lparr>memoryCache := ls_set (clock s) (memoryCache s) k v t\<rparr>
      in case redisClient s of
           None \<Rightarrow> (Inr (), s1)
         | Some r \<Rightarrow> (let argument = stringify J v in (Inl TypeError, s1)))"

text \<open>
  \<^verbatim>\<open>static delete(key)\<close>, lines 53 to 58. The promise of \<^verbatim>\<open>redisClient.del\<close>
  is not awaited, so its rejection does not reach the caller (it stays unhandled; what the
  runtime does with an unhandled rejection is outside the model).
\<close>

definition cache_delete :: "key \<Rightarrow> state \<Rightarrow> (error + unit) \<times> state" where
  "cache_delete k s =
     (let s1 = s\<lparr>memoryCache := ls_del (memoryCache s) k\<rparr>
      in case redisClient s of
           None \<Rightarrow> (Inr (), s1)
         | Some r \<Rightarrow>
             (let s2 = s1\<lparr>issued := issued s @ [DEL k]\<rparr>
              in (Inr (),
                  if fails r (DEL k) then s2
                  else s2\<lparr>redisClient := Some (remote_remove r k)\<rparr>)))"

text \<open>
  The interface of the spec returns \<open>(value, found)\<close>; the source returns the value, or
  \<^verbatim>\<open>null\<close> for a miss (line 40). \<open>found\<close> reads the flag off that result.
\<close>

fun found :: "error + jsval \<Rightarrow> bool" where
  "found (Inl e) = False"
| "found (Inr v) = (v \<noteq> JNull)"

subsection \<open>cacheMiddleware\<close>

text \<open>
  The middleware of \<^verbatim>\<open>PERFORMANCE_OPTIMIZATION.md\<close>, lines 255 to 277: the
  \<open>Memoize\<close> of the spec, with \<open>key = "cache:" + req.originalUrl\<close>, \<open>duration\<close> the TTL
  and \<^verbatim>\<open>next\<close> the operation that produces the value. One invocation of
  \<^verbatim>\<open>next\<close> either emits a body through \<^verbatim>\<open>res.status(code).json(data)\<close> or
  raises; what it does may depend on how often it has been invoked before, which
  \<open>invoked\<close> counts.
\<close>

record response =
  status :: int
  body :: jsval

datatype outcome =
    Json int jsval
  | Raise error

type_synonym handler = "nat \<Rightarrow> outcome"

record app =
  cache :: state
  invoked :: nat

text \<open>
  One call of \<^verbatim>\<open>next()\<close>. \<open>override = Some (key, duration)\<close> when
  \<^verbatim>\<open>res.json\<close> has been replaced by the function of lines 267 to 270, which calls
  \<^verbatim>\<open>CacheService.set(key, data, duration)\<close> without awaiting it (a rejection of that
  promise reaches nobody) and then the original \<^verbatim>\<open>res.json\<close>.
\<close>

definition invoke_next ::
  "codec \<Rightarrow> handler \<Rightarrow> (key \<times> int) option \<Rightarrow> app \<Rightarrow> (error + response) \<times> app" where
  "invoke_next J next override a =
     (case next (invoked a) of
        Raise e \<Rightarrow> (Inl e, a\<lparr>invoked := Suc (invoked a)\<rparr>)
      | Json code data \<Rightarrow>
          (Inr \<lparr>status = code, body = data\<rparr>,
           \<lparr>cache =
              (case override of
                 None \<Rightarrow> cache a
               | Some (k, duration) \<Rightarrow> snd (cache_set J k data (Some duration) (cache a))),
            invoked = Suc (invoked a)\<rparr>))"

text \<open>
  \<^verbatim>\<open>cacheMiddleware(duration = 300)(req, res, next)\<close>. A failure of
  \<^verbatim>\<open>CacheService.get\<close> is caught and answered by \<^verbatim>\<open>next()\<close> with
  \<^verbatim>\<open>res.json\<close> untouched; the same \<^verbatim>\<open>catch\<close> also receives what the first
  \<^verbatim>\<open>next()\<close> throws, and calls \<^verbatim>\<open>next()\<close> once more.
\<close>

definition cacheMiddleware ::
  "codec \<Rightarrow> int option \<Rightarrow> handler \<Rightarrow> string \<Rightarrow> app \<Rightarrow> (error + response) \<times> app" where
  "cacheMiddleware J duration next originalUrl a =
     (let d = or_300 duration;
          k = ''cache:'' @ originalUrl
      in case cache_get J k (cache a) of
           (Inl err, s1) \<Rightarrow> invoke_next J next None (a\<lparr>cache := s1\<rparr>)
         | (Inr cached, s1) \<Rightarrow>
             if truthy cached
             then (Inr \<lparr>status = 200, body = cached\<rparr>, a\<lparr>cache := s1\<rparr>)
             else
               (case invoke_next J next (Some (k, d)) (a\<lparr>cache := s1\<rparr>) of
                  (Inl err, a1) \<Rightarrow> invoke_next J next (Some (k, d)) a1
                | (Inr resp, a1) \<Rightarrow> (Inr resp, a1)))"

subsection \<open>Sequences of operations\<close>

text \<open>
  The calls a client of the module can make, and the passing of time. \<open>Get\<close> replies with a
  value, \<open>Set\<close> and \<open>Delete\<close> with \<^verbatim>\<open>undefined\<close> (\<open>None\<close>).
\<close>

datatype op =
    Get key
  | Set key jsval "int option"
  | Delete key
  | Advance nat

fun apply_op :: "codec \<Rightarrow> op \<Rightarrow> state \<Rightarrow> (error + jsval option) \<times> state" where
  "apply_op J (Get k) s =
     (case cache_get J k s of (Inl e, s1) \<Rightarrow> (Inl e, s1) | (Inr v, s1) \<Rightarrow> (Inr (Some v), s1))"
| "apply_op J (Set k v ttl) s =
     (case cache_set J k v ttl s of (Inl e, s1) \<Rightarrow> (Inl e, s1) | (Inr u, s1) \<Rightarrow> (Inr None, s1))"
| "apply_op J (Delete k) s =
     (case cache_delete k s of (Inl e, s1) \<Rightarrow> (Inl e, s1) | (Inr u, s1) \<Rightarrow> (Inr None, s1))"
| "apply_op J (Advance d) s = (Inr None, s\<lparr>clock := clock s + int d\<rparr>)"

fun run :: "codec \<Rightarrow> op list \<Rightarrow> state \<Rightarrow> (error + jsval option) list \<times> state" where
  "run J [] s = ([], s)"
| "run J (x # xs) s =
     (case apply_op J x s of
        (r, s1) \<Rightarrow> (case run J xs s1 of (rs, s2) \<Rightarrow> (r # rs, s2)))"

fun succeeded :: "error + 'a \<Rightarrow> bool" where
  "succeeded (Inl e) = False"
| "succeeded (Inr x) = True"

text \<open>
  The state in which a process finds itself after start-up against a service \<open>r\<close> that it
  reached: its own memory is empty, whatever other processes have written to \<open>r\<close>.
\<close>

definition connected :: "int \<Rightarrow> remote \<Rightarrow> state" where
  "connected now r = startup now (Some ''redis://cache:6379'') (Inr r)"

definition local_only :: "int \<Rightarrow> state" where
  "local_only now = startup now None (Inl RemoteFailure)"

definition healthy :: remote where
  "healthy = \<lparr>rdata = Map.empty, fails = (\<lambda>c. False)\<rparr>"

definition unreachable :: remote where
  "unreachable = \<lparr>rdata = Map.empty, fails = (\<lambda>c. True)\<rparr>"

text \<open>
  Two conditions on a state that the statements below share: neither tier has an entry for
  \<open>k\<close>, and a command \<open>c\<close> sent to the remote tier (if one is held) is answered.
\<close>

definition no_entry :: "key \<Rightarrow> state \<Rightarrow> bool" where
  "no_entry k s =
     (memoryCache s k = None \<and>
      (case redisClient s of None \<Rightarrow> True | Some r \<Rightarrow> rdata r k = None))"

definition answers :: "command \<Rightarrow> state \<Rightarrow> bool" where
  "answers c s = (case redisClient s of None \<Rightarrow> True | Some r \<Rightarrow> \<not> fails r c)"

subsection \<open>Set then Get\<close>

lemma ls_get_ls_set:
  "ls_get now (ls_set now m k v ttl) k = (if ttl < 0 then None else Some v)"
  by (simp add: ls_get_def ls_set_def expired_def)

lemma memoryCache_cache_set:
  "memoryCache (snd (cache_set J k v ttl s)) =
     ls_set (clock s) (memoryCache s) k v (or_300 ttl)"
  by (simp add: cache_set_def Let_def split: option.splits)

lemma clock_cache_set: "clock (snd (cache_set J k v ttl s)) = clock s"
  by (simp add: cache_set_def Let_def split: option.splits)

lemma cache_get_local_hit:
  "ls_get (clock s) (memoryCache s) k = Some v \<Longrightarrow> truthy v \<Longrightarrow> cache_get J k s = (Inr v, s)"
  by (simp add: cache_get_def)

text \<open>
  C1, as amended: for every key, every truthy value \<open>v\<close> and every \<open>ttl > 0\<close>, a
  \<open>Get\<close> right after \<open>Set\<close> (same clock, nothing in between) returns \<open>(v, true)\<close>; this
  holds in every state, whether a remote client is held or not.
\<close>

theorem set_then_get_truthy:
  assumes "truthy v" and "0 < ttl"
  shows "fst (cache_get J k (snd (cache_set J k v (Some ttl) s))) = Inr v \<and>
         found (fst (cache_get J k (snd (cache_set J k v (Some ttl) s))))"
proof -
  let ?s = "snd (cache_set J k v (Some ttl) s)"
  have "ls_get (clock ?s) (memoryCache ?s) k = Some v"
    using assms(2) by (simp add: memoryCache_cache_set clock_cache_set ls_get_ls_set)
  then have "cache_get J k ?s = (Inr v, ?s)"
    using assms(1) by (rule cache_get_local_hit)
  moreover have "v \<noteq> JNull"
    using assms(1) by auto
  ultimately show ?thesis by simp
qed

theorem set_then_get_truthy_witness:
  "truthy (JObj [(''name'', JStr ''Ada'')]) \<and> (0::int) < 300 \<and>
   fst (cache_get literal_codec ''user:42''
          (snd (cache_set literal_codec ''user:42'' (JObj [(''name'', JStr ''Ada'')]) (Some 300)
                  (local_only 0)))) = Inr (JObj [(''name'', JStr ''Ada'')])"
  using set_then_get_truthy [of "JObj [(''name'', JStr ''Ada'')]" 300 literal_codec "''user:42''"
      "local_only 0"]
  by simp

text \<open>
  C1 as stated fails for a falsy value: with the remote tier disabled, \<open>Set(k, 0, 300)\<close>
  followed by \<open>Get(k)\<close> returns \<open>null\<close>, the result of a miss.
\<close>

theorem set_then_get_falsy_counterexample:
  "fst (cache_get literal_codec ''k''
          (snd (cache_set literal_codec ''k'' (JNum 0) (Some 300) (local_only 0)))) = Inr JNull \<and>
   \<not> found (fst (cache_get literal_codec ''k''
          (snd (cache_set literal_codec ''k'' (JNum 0) (Some 300) (local_only 0)))))"
  by (simp add: cache_get_def get_from_redis_def cache_set_def local_only_def startup_def
      ls_get_def ls_set_def expired_def)

subsection \<open>Failures of the remote tier\<close>

lemma get_from_redis_fails:
  "redisClient s = Some r \<Longrightarrow> fails r (GET k) \<Longrightarrow>
   get_from_redis J k s = (Inl RemoteFailure, s\<lparr>issued := issued s @ [GET k]\<rparr>)"
  by (simp add: get_from_redis_def)

text \<open>
  C2, as amended: when the remote tier's get fails, \<open>Get(k)\<close> returns normally only if the
  local tier holds a live truthy value for \<open>k\<close>: it returns that value and the remote tier
  is not consulted (no command is sent). Otherwise \<open>GET k\<close> is sent and its failure is
  propagated to the caller of \<open>Get\<close>. Neither tier's data is changed.
\<close>

theorem get_remote_failure:
  assumes "redisClient s = Some r" and "fails r (GET k)"
  shows "fst (cache_get J k s) =
           (case ls_get (clock s) (memoryCache s) k of
              None \<Rightarrow> Inl RemoteFailure
            | Some v \<Rightarrow> if truthy v then Inr v else Inl RemoteFailure) \<and>
         issued (snd (cache_get J k s)) =
           (case ls_get (clock s) (memoryCache s) k of
              None \<Rightarrow> issued s @ [GET k]
            | Some v \<Rightarrow> if truthy v then issued s else issued s @ [GET k]) \<and>
         memoryCache (snd (cache_get J k s)) = memoryCache s \<and>
         redisClient (snd (cache_get J k s)) = redisClient s"
  using assms by (simp add: cache_get_def get_from_redis_fails split: option.splits)

theorem get_remote_failure_witness:
  "redisClient (connected 0 unreachable) = Some unreachable \<and> fails unreachable (GET ''k'') \<and>
   fst (cache_get literal_codec ''k'' (connected 0 unreachable)) = Inl RemoteFailure \<and>
   issued (snd (cache_get literal_codec ''k'' (connected 0 unreachable))) = [GET ''k''] \<and>
   memoryCache (snd (cache_get literal_codec ''k'' (connected 0 unreachable))) = Map.empty \<and>
   redisClient (snd (cache_set literal_codec ''k'' (JBool True) (Some 300) (connected 0 unreachable))) =
     Some unreachable \<and>
   fst (cache_get literal_codec ''k''
          (snd (cache_set literal_codec ''k'' (JBool True) (Some 300) (connected 0 unreachable)))) =
     Inr (JBool True) \<and>
   issued (snd (cache_get literal_codec ''k''
          (snd (cache_set literal_codec ''k'' (JBool True) (Some 300) (connected 0 unreachable))))) =
     []"
  using get_remote_failure [of "connected 0 unreachable" unreachable "''k''" literal_codec]
    get_remote_failure [of
      "snd (cache_set literal_codec ''k'' (JBool True) (Some 300) (connected 0 unreachable))"
      unreachable "''k''" literal_codec]
  by (simp add: connected_def startup_def unreachable_def ls_get_def ls_set_def expired_def
      cache_set_def)

text \<open>
  C2 as stated fails: with a client whose commands fail and nothing in the local tier,
  \<open>Get\<close> does not return normally, it fails with the remote error.
\<close>

theorem get_remote_failure_counterexample:
  "fst (cache_get literal_codec ''k'' (connected 0 unreachable)) = Inl RemoteFailure \<and>
   \<not> succeeded (fst (cache_get literal_codec ''k'' (connected 0 unreachable)))"
  by (simp add: cache_get_def get_from_redis_def connected_def startup_def unreachable_def
      ls_get_def)

subsection \<open>Set with a client held\<close>

lemma cache_set_effect:
  "cache_set J k v ttl s =
     ((case redisClient s of None \<Rightarrow> Inr () | Some r \<Rightarrow> Inl TypeError),
      s\<lparr>memoryCache := ls_set (clock s) (memoryCache s) k v (or_300 ttl)\<rparr>)"
  by (simp add: cache_set_def Let_def split: option.splits)

text \<open>
  C7 fails on the code whenever a remote client is held: \<open>Set("k", true, 300)\<close> in a process
  that connected to a working, empty remote service writes the local entry and then fails with
  the TypeError of the call of \<^verbatim>\<open>setex\<close>; no command is sent and the remote service
  still has no entry for the key.
\<close>

theorem set_with_client_throws:
  "fst (cache_set literal_codec ''k'' (JBool True) (Some 300) (connected 0 healthy)) =
     Inl TypeError \<and>
   \<not> succeeded (fst (cache_set literal_codec ''k'' (JBool True) (Some 300) (connected 0 healthy))) \<and>
   memoryCache (snd (cache_set literal_codec ''k'' (JBool True) (Some 300) (connected 0 healthy)))
     ''k'' = Some \<lparr>val = JBool True, storedAt = 0, ttlSeconds = 300\<rparr> \<and>
   issued (snd (cache_set literal_codec ''k'' (JBool True) (Some 300) (connected 0 healthy))) = [] \<and>
   redisClient (snd (cache_set literal_codec ''k'' (JBool True) (Some 300) (connected 0 healthy))) =
     Some healthy \<and>
   rdata healthy ''k'' = None"
  by (simp add: cache_set_effect connected_def startup_def healthy_def ls_set_def)

subsection \<open>The middleware on a miss and on a hit\<close>

lemma cache_get_no_entry:
  assumes "no_entry k s" and "answers (GET k) s"
  shows "cache_get J k s =
           (Inr JNull,
            s\<lparr>issued := issued s @ (case redisClient s of None \<Rightarrow> [] | Some r \<Rightarrow> [GET k])\<rparr>)"
  using assms
  by (simp add: cache_get_def get_from_redis_def no_entry_def answers_def ls_get_def
      remote_lookup_def split: option.splits)

lemma cache_get_no_entry_data:
  assumes "no_entry k s"
  shows "memoryCache (snd (cache_get J k s)) = memoryCache s \<and>
         redisClient (snd (cache_get J k s)) = redisClient s \<and>
         clock (snd (cache_get J k s)) = clock s \<and>
         (fst (cache_get J k s) = Inr JNull \<or> fst (cache_get J k s) = Inl RemoteFailure)"
  using assms
  by (auto simp add: cache_get_def get_from_redis_def no_entry_def ls_get_def remote_lookup_def
      Let_def split: option.splits)

lemma cacheMiddleware_miss_json:
  assumes "cache_get J (''cache:'' @ url) (cache a) = (Inr c, s1)" and "\<not> truthy c"
    and "next (invoked a) = Json code data"
  shows "cacheMiddleware J duration next url a =
           (Inr \<lparr>status = code, body = data\<rparr>,
            \<lparr>cache = snd (cache_set J (''cache:'' @ url) data
                            (Some (or_300 duration)) s1),
             invoked = Suc (invoked a)\<rparr>)"
  using assms by (simp add: cacheMiddleware_def invoke_next_def Let_def)

lemma cacheMiddleware_hit:
  assumes "ls_get (clock (cache a)) (memoryCache (cache a)) (''cache:'' @ url) = Some v"
    and "truthy v"
  shows "cacheMiddleware J duration next url a = (Inr \<lparr>status = 200, body = v\<rparr>, a)"
  using assms by (simp add: cacheMiddleware_def cache_get_def Let_def)

lemma cacheMiddleware_no_entry_json:
  assumes "no_entry (''cache:'' @ url) (cache a)" and "answers (GET (''cache:'' @ url)) (cache a)"
    and "next (invoked a) = Json code data"
  shows "fst (cacheMiddleware J (Some ttl) next url a) = Inr \<lparr>status = code, body = data\<rparr>"
    and "invoked (snd (cacheMiddleware J (Some ttl) next url a)) = Suc (invoked a)"
    and "memoryCache (cache (snd (cacheMiddleware J (Some ttl) next url a))) (''cache:'' @ url) =
           Some \<lparr>val = data, storedAt = clock (cache a), ttlSeconds = ttl\<rparr>"
    and "clock (cache (snd (cacheMiddleware J (Some ttl) next url a))) = clock (cache a)"
proof -
  let ?k = "''cache:'' @ url"
  let ?s1 = "(cache a)\<lparr>issued := issued (cache a) @
      (case redisClient (cache a) of None \<Rightarrow> [] | Some r \<Rightarrow> [GET ?k])\<rparr>"
  have g: "cache_get J ?k (cache a) = (Inr JNull, ?s1)"
    using assms(1,2) by (rule cache_get_no_entry)
  have m: "cacheMiddleware J (Some ttl) next url a =
      (Inr \<lparr>status = code, body = data\<rparr>,
       \<lparr>cache = snd (cache_set J ?k data (Some ttl) ?s1), invoked = Suc (invoked a)\<rparr>)"
    using cacheMiddleware_miss_json [of J url a JNull ?s1 "next" code data "Some ttl"] g assms(3)
    by simp
  show "fst (cacheMiddleware J (Some ttl) next url a) = Inr \<lparr>status = code, body = data\<rparr>"
    by (simp add: m)
  show "invoked (snd (cacheMiddleware J (Some ttl) next url a)) = Suc (invoked a)"
    by (simp add: m)
  show "memoryCache (cache (snd (cacheMiddleware J (Some ttl) next url a))) ?k =
      Some \<lparr>val = data, storedAt = clock (cache a), ttlSeconds = ttl\<rparr>"
    by (simp add: m memoryCache_cache_set ls_set_def)
  show "clock (cache (snd (cacheMiddleware J (Some ttl) next url a))) = clock (cache a)"
    by (simp add: m clock_cache_set)
qed

subsection \<open>TTL validation\<close>

text \<open>
  C3, as amended: a call of \<open>Set\<close> or \<open>Memoize\<close> with \<open>ttl \<le> 0\<close> is not rejected, since no
  check of the TTL is made at the call boundary. \<open>Set\<close> stores an entry for \<open>k\<close> with that
  TTL in the local tier and, with the remote tier disabled, returns normally; \<open>Memoize\<close> on a
  miss, with the remote tier disabled, returns the produced output and stores it under its
  key with that TTL.
\<close>

theorem nonpositive_ttl_not_rejected:
  assumes "ttl \<le> 0"
  shows "memoryCache (snd (cache_set J k v (Some ttl) s)) k =
           Some \<lparr>val = v, storedAt = clock s, ttlSeconds = ttl\<rparr> \<and>
         (redisClient s = None \<longrightarrow> fst (cache_set J k v (Some ttl) s) = Inr ()) \<and>
         (redisClient (cache a) = None \<and> no_entry (''cache:'' @ url) (cache a) \<and>
          next (invoked a) = Json code data \<longrightarrow>
            fst (cacheMiddleware J (Some ttl) next url a) = Inr \<lparr>status = code, body = data\<rparr> \<and>
            memoryCache (cache (snd (cacheMiddleware J (Some ttl) next url a))) (''cache:'' @ url) =
              Some \<lparr>val = data, storedAt = clock (cache a), ttlSeconds = ttl\<rparr>)"
proof -
  have "memoryCache (snd (cache_set J k v (Some ttl) s)) k =
      Some \<lparr>val = v, storedAt = clock s, ttlSeconds = ttl\<rparr>"
    by (simp add: memoryCache_cache_set ls_set_def)
  moreover have "redisClient s = None \<longrightarrow> fst (cache_set J k v (Some ttl) s) = Inr ()"
    by (simp add: cache_set_def Let_def)
  moreover have "redisClient (cache a) = None \<and> no_entry (''cache:'' @ url) (cache a) \<and>
      next (invoked a) = Json code data \<longrightarrow>
        fst (cacheMiddleware J (Some ttl) next url a) = Inr \<lparr>status = code, body = data\<rparr> \<and>
        memoryCache (cache (snd (cacheMiddleware J (Some ttl) next url a))) (''cache:'' @ url) =
          Some \<lparr>val = data, storedAt = clock (cache a), ttlSeconds = ttl\<rparr>"
  proof
    assume h: "redisClient (cache a) = None \<and> no_entry (''cache:'' @ url) (cache a) \<and>
      next (invoked a) = Json code data"
    then have ga: "answers (GET (''cache:'' @ url)) (cache a)"
      by (simp add: answers_def)
    from h have ne: "no_entry (''cache:'' @ url) (cache a)"
      and nx: "next (invoked a) = Json code data"
      by blast+
    show "fst (cacheMiddleware J (Some ttl) next url a) =
        Inr \<lparr>status = code, body = data\<rparr> \<and>
        memoryCache (cache (snd (cacheMiddleware J (Some ttl) next url a))) (''cache:'' @ url) =
          Some \<lparr>val = data, storedAt = clock (cache a), ttlSeconds = ttl\<rparr>"
      using cacheMiddleware_no_entry_json(1,3) [of url a "next" code data J ttl] ne ga nx
      by blast
  qed
  ultimately show ?thesis by blast
qed

theorem nonpositive_ttl_not_rejected_witness:
  "(-5::int) \<le> 0 \<and>
   memoryCache (snd (cache_set literal_codec ''k'' (JBool True) (Some (-5)) (local_only 7))) ''k'' =
     Some \<lparr>val = JBool True, storedAt = 7, ttlSeconds = -5\<rparr> \<and>
   fst (cache_set literal_codec ''k'' (JBool True) (Some (-5)) (local_only 7)) = Inr () \<and>
   fst (cacheMiddleware literal_codec (Some (-5)) (\<lambda>n. Json 200 (JBool True)) ''/api/stats''
          \<lparr>cache = local_only 7, invoked = 0\<rparr>) = Inr \<lparr>status = 200, body = JBool True\<rparr> \<and>
   memoryCache
     (cache (snd (cacheMiddleware literal_codec (Some (-5)) (\<lambda>n. Json 200 (JBool True))
                    ''/api/stats'' \<lparr>cache = local_only 7, invoked = 0\<rparr>)))
     ''cache:/api/stats'' = Some \<lparr>val = JBool True, storedAt = 7, ttlSeconds = -5\<rparr>"
  using nonpositive_ttl_not_rejected [of "-5" literal_codec "''k''" "JBool True" "local_only 7"
      "\<lparr>cache = local_only 7, invoked = 0\<rparr>" "''/api/stats''" "\<lambda>n. Json 200 (JBool True)"
      200 "JBool True"]
  by (simp add: local_only_def startup_def no_entry_def)

text \<open>
  C3 as stated fails: with the remote tier disabled, \<open>Set(k, true, 0)\<close> returns normally and
  the local tier holds an entry for \<open>k\<close> afterwards.
\<close>

theorem zero_ttl_counterexample:
  "succeeded (fst (cache_set literal_codec ''k'' (JBool True) (Some 0) (local_only 0))) \<and>
   memoryCache (snd (cache_set literal_codec ''k'' (JBool True) (Some 0) (local_only 0))) ''k'' =
     Some \<lparr>val = JBool True, storedAt = 0, ttlSeconds = 0\<rparr>"
  by (simp add: cache_set_def local_only_def startup_def ls_set_def)

subsection \<open>Memoize\<close>

text \<open>
  C4, as amended: for every key, every \<open>ttl > 0\<close> and every produce operation whose output is
  a truthy value, starting with no entry for the key in either tier and with the remote tier
  disabled or answering the lookup, two calls of \<open>Memoize\<close> in sequence invoke produce exactly
  once: the first call stores the produced value, and the second returns the stored value,
  equal to the first call's, without invoking produce and without changing the state.
\<close>

theorem memoize_miss_then_hit:
  assumes "truthy data" and "0 < ttl" and "next (invoked a) = Json code data"
    and "no_entry (''cache:'' @ url) (cache a)" and "answers (GET (''cache:'' @ url)) (cache a)"
  shows "fst (cacheMiddleware J (Some ttl) next url a) = Inr \<lparr>status = code, body = data\<rparr> \<and>
         invoked (snd (cacheMiddleware J (Some ttl) next url a)) = Suc (invoked a) \<and>
         memoryCache (cache (snd (cacheMiddleware J (Some ttl) next url a))) (''cache:'' @ url) =
           Some \<lparr>val = data, storedAt = clock (cache a), ttlSeconds = ttl\<rparr> \<and>
         cacheMiddleware J (Some ttl) next url (snd (cacheMiddleware J (Some ttl) next url a)) =
           (Inr \<lparr>status = 200, body = data\<rparr>, snd (cacheMiddleware J (Some ttl) next url a))"
proof -
  let ?k = "''cache:'' @ url"
  let ?a1 = "snd (cacheMiddleware J (Some ttl) next url a)"
  note first = cacheMiddleware_no_entry_json [of url a "next" code data J ttl, OF assms(4,5,3)]
  have "ls_get (clock (cache ?a1)) (memoryCache (cache ?a1)) ?k = Some data"
    using first(3,4) assms(2) by (simp add: ls_get_def expired_def)
  then have "cacheMiddleware J (Some ttl) next url ?a1 = (Inr \<lparr>status = 200, body = data\<rparr>, ?a1)"
    using assms(1) by (rule cacheMiddleware_hit)
  with first(1,2,3) show ?thesis by blast
qed

theorem memoize_miss_then_hit_witness:
  "truthy (JBool True) \<and> (0::int) < 300 \<and>
   no_entry ''cache:/api/stats'' (connected 0 healthy) \<and>
   answers (GET ''cache:/api/stats'') (connected 0 healthy) \<and>
   fst (cacheMiddleware literal_codec (Some 300)
          (\<lambda>n. if n = 0 then Json 201 (JBool True) else Raise (HandlerError ''again''))
          ''/api/stats'' \<lparr>cache = connected 0 healthy, invoked = 0\<rparr>) =
     Inr \<lparr>status = 201, body = JBool True\<rparr> \<and>
   fst (cacheMiddleware literal_codec (Some 300)
          (\<lambda>n. if n = 0 then Json 201 (JBool True) else Raise (HandlerError ''again''))
          ''/api/stats''
          (snd (cacheMiddleware literal_codec (Some 300)
                  (\<lambda>n. if n = 0 then Json 201 (JBool True) else Raise (HandlerError ''again''))
                  ''/api/stats'' \<lparr>cache = connected 0 healthy, invoked = 0\<rparr>))) =
     Inr \<lparr>status = 200, body = JBool True\<rparr> \<and>
   invoked (snd (cacheMiddleware literal_codec (Some 300)
          (\<lambda>n. if n = 0 then Json 201 (JBool True) else Raise (HandlerError ''again''))
          ''/api/stats''
          (snd (cacheMiddleware literal_codec (Some 300)
                  (\<lambda>n. if n = 0 then Json 201 (JBool True) else Raise (HandlerError ''again''))
                  ''/api/stats'' \<lparr>cache = connected 0 healthy, invoked = 0\<rparr>)))) = 1"
  using memoize_miss_then_hit [of "JBool True" 300
      "\<lambda>n. if n = 0 then Json 201 (JBool True) else Raise (HandlerError ''again'')"
      "\<lparr>cache = connected 0 healthy, invoked = 0\<rparr>" 201 "''/api/stats''" literal_codec]
  by (simp add: no_entry_def answers_def connected_def startup_def healthy_def)

text \<open>
  C4 as stated fails in two ways. A produced value that is falsy is stored but never found
  again, so produce is invoked by both calls; and while the remote lookup fails, the
  middleware answers through \<^verbatim>\<open>next()\<close> with \<^verbatim>\<open>res.json\<close> untouched, so nothing
  is stored and produce is again invoked by both calls.
\<close>

theorem memoize_twice_counterexample:
  "invoked (snd (cacheMiddleware literal_codec (Some 300) (\<lambda>n. Json 200 (JNum 0)) ''/api/count''
          (snd (cacheMiddleware literal_codec (Some 300) (\<lambda>n. Json 200 (JNum 0)) ''/api/count''
                  \<lparr>cache = local_only 0, invoked = 0\<rparr>)))) = 2 \<and>
   invoked (snd (cacheMiddleware literal_codec (Some 300) (\<lambda>n. Json 200 (JBool True)) ''/api/count''
          (snd (cacheMiddleware literal_codec (Some 300) (\<lambda>n. Json 200 (JBool True)) ''/api/count''
                  \<lparr>cache = connected 0 unreachable, invoked = 0\<rparr>)))) = 2"
  by (simp add: cacheMiddleware_def invoke_next_def cache_get_def get_from_redis_def cache_set_def
      local_only_def connected_def unreachable_def startup_def ls_get_def ls_set_def expired_def
      Let_def)

text \<open>
  C5, as amended: when \<open>Memoize\<close> wraps an HTTP-style handler and the lookup misses (no entry
  for the key in either tier, the remote lookup answered or the remote tier disabled), the
  output that the handler emits through \<^verbatim>\<open>res.json\<close> is intercepted and stored under the
  key with the configured TTL, whatever its status code, error outputs included; the handler
  has then been invoked once and its output is what the caller receives. When that body is
  truthy and \<open>ttl > 0\<close>, a following \<open>Memoize\<close> answers with the stored body, with status
  200, without invoking the handler and without changing the state.
\<close>

theorem memoize_intercepts_any_status:
  assumes "no_entry (''cache:'' @ url) (cache a)"
    and "answers (GET (''cache:'' @ url)) (cache a)"
    and "next (invoked a) = Json code data"
  shows "fst (cacheMiddleware J (Some ttl) next url a) = Inr \<lparr>status = code, body = data\<rparr> \<and>
         invoked (snd (cacheMiddleware J (Some ttl) next url a)) = Suc (invoked a) \<and>
         memoryCache (cache (snd (cacheMiddleware J (Some ttl) next url a))) (''cache:'' @ url) =
           Some \<lparr>val = data, storedAt = clock (cache a), ttlSeconds = ttl\<rparr> \<and>
         (truthy data \<and> 0 < ttl \<longrightarrow>
            cacheMiddleware J (Some ttl) next url (snd (cacheMiddleware J (Some ttl) next url a)) =
              (Inr \<lparr>status = 200, body = data\<rparr>,
               snd (cacheMiddleware J (Some ttl) next url a)))"
proof -
  let ?k = "''cache:'' @ url"
  let ?a1 = "snd (cacheMiddleware J (Some ttl) next url a)"
  note first = cacheMiddleware_no_entry_json [of url a "next" code data J ttl, OF assms]
  have "cacheMiddleware J (Some ttl) next url ?a1 = (Inr \<lparr>status = 200, body = data\<rparr>, ?a1)"
    if t: "truthy data" and p: "0 < ttl"
  proof -
    have "ls_get (clock (cache ?a1)) (memoryCache (cache ?a1)) ?k = Some data"
      using first(3,4) p by (simp add: ls_get_def expired_def)
    then show ?thesis
      using t by (rule cacheMiddleware_hit)
  qed
  with first(1,2,3) show ?thesis by blast
qed

theorem memoize_intercepts_any_status_witness:
  "no_entry ''cache:/api/stats'' (local_only 0) \<and>
   answers (GET ''cache:/api/stats'') (local_only 0) \<and>
   truthy (JObj [(''error'', JStr ''db down'')]) \<and> (0::int) < 300 \<and>
   memoryCache
     (cache (snd (cacheMiddleware literal_codec (Some 300)
                    (\<lambda>n. Json 500 (JObj [(''error'', JStr ''db down'')]))
                    ''/api/stats'' \<lparr>cache = local_only 0, invoked = 0\<rparr>)))
     ''cache:/api/stats'' =
     Some \<lparr>val = JObj [(''error'', JStr ''db down'')], storedAt = 0, ttlSeconds = 300\<rparr> \<and>
   cacheMiddleware literal_codec (Some 300)
     (\<lambda>n. Json 500 (JObj [(''error'', JStr ''db down'')])) ''/api/stats''
     (snd (cacheMiddleware literal_codec (Some 300)
             (\<lambda>n. Json 500 (JObj [(''error'', JStr ''db down'')]))
             ''/api/stats'' \<lparr>cache = local_only 0, invoked = 0\<rparr>)) =
     (Inr \<lparr>status = 200, body = JObj [(''error'', JStr ''db down'')]\<rparr>,
      snd (cacheMiddleware literal_codec (Some 300)
             (\<lambda>n. Json 500 (JObj [(''error'', JStr ''db down'')]))
             ''/api/stats'' \<lparr>cache = local_only 0, invoked = 0\<rparr>))"
  using memoize_intercepts_any_status [of "''/api/stats''" "\<lparr>cache = local_only 0, invoked = 0\<rparr>"
      "\<lambda>n. Json 500 (JObj [(''error'', JStr ''db down'')])" 500
      "JObj [(''error'', JStr ''db down'')]" literal_codec 300]
  by (simp add: no_entry_def answers_def local_only_def startup_def)

text \<open>
  C5 as stated fails in both halves. The body that a handler emits with status 500 through
  \<^verbatim>\<open>res.json\<close> is stored, and the following call answers with that body from the
  cache, with status 200, without invoking the handler again. And when \<^verbatim>\<open>next()\<close>
  throws on its first invocation only, the error is not propagated: the \<^verbatim>\<open>catch\<close> of
  line 273 calls \<^verbatim>\<open>next()\<close> a second time, whose output is returned and stored.
\<close>

theorem memoize_error_output_counterexample:
  "fst (cacheMiddleware literal_codec (Some 300)
          (\<lambda>n. Json 500 (JObj [(''error'', JStr ''db down'')])) ''/api/stats''
          \<lparr>cache = local_only 0, invoked = 0\<rparr>) =
     Inr \<lparr>status = 500, body = JObj [(''error'', JStr ''db down'')]\<rparr> \<and>
   fst (cacheMiddleware literal_codec (Some 300)
          (\<lambda>n. Json 500 (JObj [(''error'', JStr ''db down'')])) ''/api/stats''
          (snd (cacheMiddleware literal_codec (Some 300)
                  (\<lambda>n. Json 500 (JObj [(''error'', JStr ''db down'')])) ''/api/stats''
                  \<lparr>cache = local_only 0, invoked = 0\<rparr>))) =
     Inr \<lparr>status = 200, body = JObj [(''error'', JStr ''db down'')]\<rparr> \<and>
   invoked (snd (cacheMiddleware literal_codec (Some 300)
          (\<lambda>n. Json 500 (JObj [(''error'', JStr ''db down'')])) ''/api/stats''
          (snd (cacheMiddleware literal_codec (Some 300)
                  (\<lambda>n. Json 500 (JObj [(''error'', JStr ''db down'')])) ''/api/stats''
                  \<lparr>cache = local_only 0, invoked = 0\<rparr>)))) = 1 \<and>
   fst (cacheMiddleware literal_codec (Some 300)
          (\<lambda>n. if n = 0 then Raise (HandlerError ''db down'') else Json 200 (JBool True))
          ''/api/stats'' \<lparr>cache = local_only 0, invoked = 0\<rparr>) =
     Inr \<lparr>status = 200, body = JBool True\<rparr> \<and>
   invoked (snd (cacheMiddleware literal_codec (Some 300)
          (\<lambda>n. if n = 0 then Raise (HandlerError ''db down'') else Json 200 (JBool True))
          ''/api/stats'' \<lparr>cache = local_only 0, invoked = 0\<rparr>)) = 2 \<and>
   memoryCache
     (cache (snd (cacheMiddleware literal_codec (Some 300)
          (\<lambda>n. if n = 0 then Raise (HandlerError ''db down'') else Json 200 (JBool True))
          ''/api/stats'' \<lparr>cache = local_only 0, invoked = 0\<rparr>)))
     ''cache:/api/stats'' = Some \<lparr>val = JBool True, storedAt = 0, ttlSeconds = 300\<rparr>"
  by (simp add: cacheMiddleware_def invoke_next_def cache_get_def get_from_redis_def cache_set_def
      local_only_def startup_def ls_get_def ls_set_def expired_def Let_def)

subsection \<open>Promotion and the JSON round trip\<close>

lemma get_from_redis_hit:
  assumes "redisClient s = Some r" and "\<not> fails r (GET k)"
    and "remote_lookup (clock s) r k = Some str" and "str \<noteq> []"
  shows "get_from_redis J k s =
           (case parse J str of
              None \<Rightarrow> (Inl SyntaxError, s\<lparr>issued := issued s @ [GET k]\<rparr>)
            | Some parsed \<Rightarrow>
                (Inr parsed,
                 s\<lparr>issued := issued s @ [GET k],
                   memoryCache := ls_set (clock s) (memoryCache s) k parsed 60\<rparr>))"
  using assms by (simp add: get_from_redis_def Let_def split: option.splits)

text \<open>
  C6, as amended: for every key \<open>k\<close> absent from the local tier and present in the remote tier
  with a payload that parses to a value \<open>v\<close> other than \<open>null\<close>, the remote get being answered,
  \<open>Get(k)\<close> returns \<open>(v, true)\<close> and, as part of that call, writes \<open>v\<close> into the local tier
  with a TTL of 60 seconds (a fixed promotion TTL, whatever the TTL of the remote entry), so
  that an inspection of the local tier afterwards shows \<open>k\<close> present. (The payload is not
  the empty string, which \<^verbatim>\<open>JSON.parse\<close> rejects.)
\<close>

theorem promotion:
  assumes "memoryCache s k = None" and "redisClient s = Some r" and "\<not> fails r (GET k)"
    and "remote_lookup (clock s) r k = Some str" and "str \<noteq> []"
    and "parse J str = Some v" and "v \<noteq> JNull"
  shows "fst (cache_get J k s) = Inr v \<and> found (fst (cache_get J k s)) \<and>
         memoryCache (snd (cache_get J k s)) k =
           Some \<lparr>val = v, storedAt = clock s, ttlSeconds = 60\<rparr> \<and>
         ls_get (clock (snd (cache_get J k s))) (memoryCache (snd (cache_get J k s))) k = Some v"
proof -
  have "cache_get J k s = get_from_redis J k s"
    using assms(1) by (simp add: cache_get_def ls_get_def)
  also have "\<dots> = (Inr v, s\<lparr>issued := issued s @ [GET k],
      memoryCache := ls_set (clock s) (memoryCache s) k v 60\<rparr>)"
    using get_from_redis_hit [OF assms(2,3,4,5), of J] assms(6) by simp
  finally show ?thesis
    using assms(7) by (simp add: ls_set_def ls_get_def expired_def)
qed

theorem promotion_witness:
  "memoryCache (connected 5 (remote_store 0 healthy ''k'' 300 ''true'')) ''k'' = None \<and>
   remote_lookup 5 (remote_store 0 healthy ''k'' 300 ''true'') ''k'' = Some ''true'' \<and>
   parse literal_codec ''true'' = Some (JBool True) \<and>
   fst (cache_get literal_codec ''k'' (connected 5 (remote_store 0 healthy ''k'' 300 ''true''))) =
     Inr (JBool True) \<and>
   memoryCache
     (snd (cache_get literal_codec ''k'' (connected 5 (remote_store 0 healthy ''k'' 300 ''true''))))
     ''k'' = Some \<lparr>val = JBool True, storedAt = 5, ttlSeconds = 60\<rparr>"
  using promotion [of "connected 5 (remote_store 0 healthy ''k'' 300 ''true'')" "''k''"
      "remote_store 0 healthy ''k'' 300 ''true''" "''true''" literal_codec "JBool True"]
  by (simp add: connected_def startup_def remote_store_def healthy_def remote_lookup_def
      literal_codec_def literal_parse_def)

text \<open>
  C6 as stated fails at a remote entry that holds \<open>null\<close> and was written with a TTL of 10
  seconds: \<open>Get\<close> returns \<open>null\<close>, which the caller reads as absent, and the promoted local
  entry has TTL 60, longer than the remote entry's: at time 30 the remote entry is gone and
  the local one is still live.
\<close>

theorem promotion_counterexample:
  "fst (cache_get literal_codec ''k'' (connected 0 (remote_store 0 healthy ''k'' 10 ''null''))) =
     Inr JNull \<and>
   \<not> found
       (fst (cache_get literal_codec ''k'' (connected 0 (remote_store 0 healthy ''k'' 10 ''null'')))) \<and>
   memoryCache
     (snd (cache_get literal_codec ''k'' (connected 0 (remote_store 0 healthy ''k'' 10 ''null''))))
     ''k'' = Some \<lparr>val = JNull, storedAt = 0, ttlSeconds = 60\<rparr> \<and>
   remote_lookup 30 (remote_store 0 healthy ''k'' 10 ''null'') ''k'' = None \<and>
   ls_get 30
     (memoryCache
        (snd (cache_get literal_codec ''k'' (connected 0 (remote_store 0 healthy ''k'' 10 ''null'')))))
     ''k'' = Some JNull"
  by (simp add: cache_get_def get_from_redis_def connected_def startup_def remote_store_def
      healthy_def remote_lookup_def literal_codec_def literal_parse_def ls_get_def ls_set_def
      expired_def Let_def)

text \<open>
  C10 fails on the code: a value set while a remote client is held never reaches the remote
  tier, because the call of \<^verbatim>\<open>setex\<close> throws before anything is sent. The remote
  service holds \<open>"false"\<close> for the key, written by some client with a TTL of 1000 seconds.
  \<open>Set("k", true, 300)\<close> fails with the TypeError and leaves that payload in place; 301
  seconds later the local entry has expired, and \<open>Get("k")\<close> misses locally, hits the remote
  tier and observes \<open>false\<close>, where \<open>JSON.parse(JSON.stringify(true))\<close> is \<open>true\<close>.
\<close>

theorem set_never_reaches_remote:
  "fst (run literal_codec [Set ''k'' (JBool True) (Some 300), Advance 301, Get ''k'']
          (connected 0 (remote_store 0 healthy ''k'' 1000 ''false''))) =
     [Inl TypeError, Inr None, Inr (Some (JBool False))] \<and>
   parse literal_codec (stringify literal_codec (JBool True)) = Some (JBool True) \<and>
   redisClient
     (snd (cache_set literal_codec ''k'' (JBool True) (Some 300)
             (connected 0 (remote_store 0 healthy ''k'' 1000 ''false'')))) =
     Some (remote_store 0 healthy ''k'' 1000 ''false'')"
  by (simp add: cache_set_effect cache_get_def get_from_redis_def connected_def startup_def
      remote_store_def healthy_def remote_lookup_def literal_codec_def literal_parse_def
      literal_stringify_def ls_get_def ls_set_def expired_def Let_def)

subsection \<open>The disabled remote tier\<close>

lemma apply_op_disabled:
  assumes "redisClient s = None"
  shows "succeeded (fst (apply_op J x s)) \<and> redisClient (snd (apply_op J x s)) = None \<and>
         issued (snd (apply_op J x s)) = issued s"
proof (cases x)
  case (Get k)
  with assms show ?thesis
    by (simp add: cache_get_def get_from_redis_def split: option.splits)
next
  case (Set k v ttl)
  with assms show ?thesis
    by (simp add: cache_set_def Let_def)
next
  case (Delete k)
  with assms show ?thesis
    by (simp add: cache_delete_def Let_def)
next
  case (Advance d)
  with assms show ?thesis by simp
qed

lemma run_disabled:
  "redisClient s = None \<Longrightarrow>
   list_all succeeded (fst (run J ops s)) \<and> redisClient (snd (run J ops s)) = None \<and>
   issued (snd (run J ops s)) = issued s"
proof (induction ops arbitrary: s)
  case Nil
  then show ?case by simp
next
  case (Cons x xs)
  obtain r s1 where a: "apply_op J x s = (r, s1)"
    by (cases "apply_op J x s")
  obtain rs s2 where b: "run J xs s1 = (rs, s2)"
    by (cases "run J xs s1")
  from apply_op_disabled [OF Cons.prems, of J x] a
  have one: "succeeded r" "redisClient s1 = None" "issued s1 = issued s"
    by simp_all
  from Cons.IH [OF one(2)] b
  have rest: "list_all succeeded rs" "redisClient s2 = None" "issued s2 = issued s1"
    by simp_all
  from a b one rest show ?case by simp
qed

lemma disabled_local_semantics:
  assumes "redisClient s = None"
  shows "cache_get J k s =
           (Inr (case ls_get (clock s) (memoryCache s) k of
                   None \<Rightarrow> JNull
                 | Some w \<Rightarrow> if truthy w then w else JNull), s)"
    and "cache_set J k v ttl s =
           (Inr (), s\<lparr>memoryCache := ls_set (clock s) (memoryCache s) k v (or_300 ttl)\<rparr>)"
    and "cache_delete k s = (Inr (), s\<lparr>memoryCache := ls_del (memoryCache s) k\<rparr>)"
  using assms
  by (simp_all add: cache_get_def get_from_redis_def cache_set_def cache_delete_def Let_def
      split: option.splits)

text \<open>
  C8: when the connection attempt of the start-up fails, the module is in the state of a
  process for which no remote tier was configured, \<open>redisClient = null\<close>. From there, after
  any sequence of \<open>Get\<close>, \<open>Set\<close>, \<open>Delete\<close> and clock advances, every call has returned
  successfully, \<open>redisClient\<close> is still \<open>null\<close> and no command has been sent to the remote
  tier. In the state reached, each operation has its local-only meaning and changes nothing
  else: \<open>Get\<close> returns the live truthy value of the local tier, or else \<open>null\<close>, and leaves
  the state as it is; \<open>Set\<close> succeeds and is the local store's \<open>set\<close> with the TTL (300 when
  omitted); \<open>Delete\<close> succeeds and is the local store's \<open>del\<close>.
\<close>

theorem failed_connect_disables:
  "redisClient (startup now (Some url) (Inl err)) = None \<and>
   startup now (Some url) (Inl err) = local_only now \<and>
   list_all succeeded (fst (run J ops (startup now (Some url) (Inl err)))) \<and>
   redisClient (snd (run J ops (startup now (Some url) (Inl err)))) = None \<and>
   issued (snd (run J ops (startup now (Some url) (Inl err)))) = [] \<and>
   cache_get J k (snd (run J ops (startup now (Some url) (Inl err)))) =
     (Inr (case ls_get (clock (snd (run J ops (startup now (Some url) (Inl err)))))
                  (memoryCache (snd (run J ops (startup now (Some url) (Inl err))))) k of
             None \<Rightarrow> JNull
           | Some w \<Rightarrow> if truthy w then w else JNull),
      snd (run J ops (startup now (Some url) (Inl err)))) \<and>
   cache_set J k v ttl (snd (run J ops (startup now (Some url) (Inl err)))) =
     (Inr (),
      (snd (run J ops (startup now (Some url) (Inl err))))
        \<lparr>memoryCache :=
           ls_set (clock (snd (run J ops (startup now (Some url) (Inl err)))))
             (memoryCache (snd (run J ops (startup now (Some url) (Inl err))))) k v
             (or_300 ttl)\<rparr>) \<and>
   cache_delete k (snd (run J ops (startup now (Some url) (Inl err)))) =
     (Inr (),
      (snd (run J ops (startup now (Some url) (Inl err))))
        \<lparr>memoryCache :=
           ls_del (memoryCache (snd (run J ops (startup now (Some url) (Inl err))))) k\<rparr>)"
proof -
  let ?s = "snd (run J ops (startup now (Some url) (Inl err)))"
  have d: "redisClient (startup now (Some url) (Inl err)) = None"
    by (simp add: startup_def)
  have i: "issued (startup now (Some url) (Inl err)) = []"
    by (simp add: startup_def)
  have e: "startup now (Some url) (Inl err) = local_only now"
    by (simp add: startup_def local_only_def)
  note inv = run_disabled [OF d, of J ops]
  from inv have n: "redisClient ?s = None" by blast
  note sem = disabled_local_semantics [OF n]
  from inv i have "issued ?s = []" by simp
  with d e inv sem(1) [of J k] sem(2) [of J k v ttl] sem(3) [of k] show ?thesis
    by blast
qed

text \<open>
  The statement at a concrete run: after a failed connection attempt, \<open>Set\<close>, \<open>Get\<close>,
  \<open>Delete\<close>, \<open>Get\<close> reply \<^verbatim>\<open>undefined\<close>, the value, \<^verbatim>\<open>undefined\<close> and
  \<open>null\<close>, and nothing was sent.
\<close>

lemma failed_connect_run:
  "fst (run literal_codec [Set ''k'' (JBool True) None, Get ''k'', Delete ''k'', Get ''k'']
          (startup 0 (Some ''redis://cache:6379'') (Inl RemoteFailure))) =
     [Inr None, Inr (Some (JBool True)), Inr None, Inr (Some JNull)] \<and>
   issued (snd (run literal_codec [Set ''k'' (JBool True) None, Get ''k'', Delete ''k'', Get ''k'']
          (startup 0 (Some ''redis://cache:6379'') (Inl RemoteFailure)))) = []"
  by (simp add: startup_def cache_get_def get_from_redis_def cache_set_def
      cache_delete_def ls_get_def ls_set_def ls_del_def expired_def Let_def)

subsection \<open>Delete\<close>

lemma cache_delete_succeeds:
  "succeeded (fst (cache_delete k s))"
  by (simp add: cache_delete_def Let_def split: option.splits)

text \<open>
  C9: \<open>Delete(k)\<close> never fails, however often it is repeated, and a delete of a key that the
  local tier does not hold leaves the local tier as it was. After \<open>Delete(k)\<close> the local tier
  has no entry for \<open>k\<close>, so its lookup misses; and when the remote tier is disabled, or
  answers both the \<open>DEL\<close> and the following \<open>GET\<close>, \<open>Get(k)\<close> returns \<open>null\<close>, that is
  \<open>(_, false)\<close>.
\<close>

theorem delete_idempotent:
  "succeeded (fst (cache_delete k (((\<lambda>s. snd (cache_delete k s)) ^^ n) s))) \<and>
   memoryCache (snd (cache_delete k s)) k = None \<and>
   ls_get (clock (snd (cache_delete k s))) (memoryCache (snd (cache_delete k s))) k = None \<and>
   (memoryCache s k = None \<longrightarrow> memoryCache (snd (cache_delete k s)) = memoryCache s) \<and>
   (answers (DEL k) s \<and> answers (GET k) s \<longrightarrow>
      fst (cache_get J k (snd (cache_delete k s))) = Inr JNull \<and>
      \<not> found (fst (cache_get J k (snd (cache_delete k s)))))"
proof -
  have m: "memoryCache (snd (cache_delete k s)) = (memoryCache s)(k := None)"
    by (simp add: cache_delete_def ls_del_def Let_def split: option.splits)
  have "answers (DEL k) s \<and> answers (GET k) s \<longrightarrow>
      fst (cache_get J k (snd (cache_delete k s))) = Inr JNull"
    by (auto simp add: answers_def cache_delete_def ls_del_def cache_get_def get_from_redis_def
        ls_get_def remote_remove_def remote_lookup_def Let_def split: option.splits)
  moreover have "memoryCache s k = None \<longrightarrow> memoryCache (snd (cache_delete k s)) = memoryCache s"
    using m by auto
  ultimately show ?thesis
    using m cache_delete_succeeds [of k "((\<lambda>s. snd (cache_delete k s)) ^^ n) s"]
    by (simp add: ls_get_def)
qed

theorem delete_idempotent_witness:
  "memoryCache (local_only 0) ''k'' = None \<and>
   memoryCache (snd (cache_delete ''k'' (local_only 0))) = memoryCache (local_only 0) \<and>
   answers (DEL ''k'') (connected 0 (remote_store 0 healthy ''k'' 300 ''true'')) \<and>
   answers (GET ''k'') (connected 0 (remote_store 0 healthy ''k'' 300 ''true'')) \<and>
   fst (cache_get literal_codec ''k''
          (snd (cache_delete ''k'' (connected 0 (remote_store 0 healthy ''k'' 300 ''true''))))) =
     Inr JNull"
  using delete_idempotent [of "''k''" 0 "local_only 0" literal_codec]
    delete_idempotent [of "''k''" 0 "connected 0 (remote_store 0 healthy ''k'' 300 ''true'')"
      literal_codec]
  by (simp add: local_only_def connected_def startup_def answers_def remote_store_def healthy_def)

end
